theory Spec2Isabelle
  imports Main "HOL-Library.Word"
begin

section \<open>Python values crossing the conversion boundary\<close>

text \<open>
  \<^verbatim>\<open>gymnasium/wrappers/jax_to_torch.py\<close> converts nested Python values between
  PyTorch (the caller's side) and Jax (the wrapped environment's side). The converters
  inspect nothing but the runtime class of a value, so a value is modelled by its
  class and its children. A Python float is the 64 bits of its IEEE double; no
  arithmetic is done on it here.
\<close>

type_synonym float64 = "64 word"

datatype number =
    PyBool bool
  | PyInt int
  | PyFloat float64
  | PyComplex float64 float64

text \<open>\<^verbatim>\<open>Device = Union[str, torch.device]\<close>: a device string, or a torch.device
  object (device type and index).\<close>

datatype device = DeviceStr string | TorchDevice string nat

text \<open>A tensor of either runtime: its dimensions, its flattened elements, where it lives.\<close>

datatype tensor = Tensor (shape: "nat list") (elems: "number list") (placement: device)

text \<open>Keys of a mapping. Only string keys can be passed on as keyword arguments.\<close>

datatype pykey = KStr string | KInt int

datatype container = ListType | TupleType

text \<open>
  A mapping class: its name, and what calling it with keyword arguments
  (\<^verbatim>\<open>type(value)(**kwargs)\<close>) does.
  \<^item> \<open>BuildsFromKwargs\<close>: it builds the mapping that holds them (\<^verbatim>\<open>dict\<close>,
    \<^verbatim>\<open>collections.OrderedDict\<close>);
  \<^item> \<open>EmptyCallOnly\<close>: it takes no keyword argument and, called with none, builds the
    empty mapping (\<^verbatim>\<open>collections.ChainMap\<close>);
  \<^item> \<open>NeverCallable\<close>: it needs a positional argument and raises on every such call
    (\<^verbatim>\<open>types.MappingProxyType\<close>).
\<close>

datatype kwargs_call = BuildsFromKwargs | EmptyCallOnly | NeverCallable

datatype mapping_class = MappingClass (class_name: string) (kwargs_call: kwargs_call)

text \<open>
  \<^item> \<open>PyMapping c items\<close>: an instance of the mapping class \<open>c\<close> with \<open>items\<close> as
    \<^verbatim>\<open>value.items()\<close> yields them;
  \<^item> \<open>PyNamedTuple T fields\<close>: an instance of the namedtuple class \<open>T\<close>;
  \<^item> \<open>PySequence c xs\<close>: a list or a tuple;
  \<^item> \<open>PyGenerator xs\<close>: a generator object that would yield \<open>xs\<close>;
  \<^item> \<open>PyObject T\<close>: an instance of a class \<open>T\<close> that is no number, tensor, mapping or
    iterable (a socket, say).
  Sets, deques and the other iterable classes are not among the values of the model.
\<close>

datatype pyval =
    PyNone
  | PyNumber number
  | PyStr string
  | TorchTensor tensor
  | JaxArray tensor
  | PyMapping mapping_class "(pykey \<times> pyval) list"
  | PyNamedTuple string "pyval list"
  | PySequence container "pyval list"
  | PyGenerator "pyval list"
  | PyObject string

definition dict_class :: mapping_class where
  "dict_class = MappingClass ''dict'' BuildsFromKwargs"


definition chainmap_class :: mapping_class where
  "chainmap_class = MappingClass ''collections.ChainMap'' EmptyCallOnly"


text \<open>Exceptions, by class and message. \<open>EnvError\<close> is whatever the wrapped environment
  raises.\<close>

datatype error =
    Exception string
  | TypeError string
  | ValueError string
  | RuntimeError string
  | OverflowError string
  | EnvError string

text \<open>A raised exception ends the computation it is raised in.\<close>

fun bind :: "error + 'a \<Rightarrow> ('a \<Rightarrow> error + 'b) \<Rightarrow> error + 'b" where
  "bind (Inl e) f = Inl e"
| "bind (Inr x) f = f x"

text \<open>Consuming a generator of conversions: the results in order, or the first exception.\<close>

fun sequence :: "(error + 'a) list \<Rightarrow> error + 'a list" where
  "sequence [] = Inr []"
| "sequence (Inl e # rs) = Inl e"
| "sequence (Inr x # rs) = (case sequence rs of Inl e \<Rightarrow> Inl e | Inr xs \<Rightarrow> Inr (x # xs))"

section \<open>Runtime classes and \<^verbatim>\<open>functools.singledispatch\<close>\<close>

text \<open>
  Since jax 0.6.0 the class of a Jax array no longer resolves to \<^verbatim>\<open>jax.Array\<close> in single
  dispatch (the comment in \<^verbatim>\<open>_jax_iterable_to_torch\<close>), although \<^verbatim>\<open>isinstance\<close> still
  holds. Both behaviours are modelled.
\<close>

datatype jax_release = Before_0_6_0 | Since_0_6_0

datatype pyclass =
    NoneTypeClass
  | NumberABC
  | TorchTensorClass
  | JaxArrayClass
  | MappingABC
  | IterableABC
  | ConcreteClass string
  | ObjectClass

fun number_type_name :: "number \<Rightarrow> string" where
  "number_type_name (PyBool b) = ''bool''"
| "number_type_name (PyInt i) = ''int''"
| "number_type_name (PyFloat x) = ''float''"
| "number_type_name (PyComplex re im) = ''complex''"

fun container_name :: "container \<Rightarrow> string" where
  "container_name ListType = ''list''"
| "container_name TupleType = ''tuple''"

text \<open>\<^verbatim>\<open>type(value)\<close>, by name.\<close>

fun type_name :: "pyval \<Rightarrow> string" where
  "type_name PyNone = ''NoneType''"
| "type_name (PyNumber n) = number_type_name n"
| "type_name (PyStr s) = ''str''"
| "type_name (TorchTensor t) = ''torch.Tensor''"
| "type_name (JaxArray t) = ''jaxlib.xla_extension.ArrayImpl''"
| "type_name (PyMapping c kvs) = class_name c"
| "type_name (PyNamedTuple T fs) = T"
| "type_name (PySequence c xs) = container_name c"
| "type_name (PyGenerator xs) = ''generator''"
| "type_name (PyObject T) = T"

text \<open>\<^verbatim>\<open>f"{type(value)}"\<close>: the class between \<^verbatim>\<open><class '\<close> and \<^verbatim>\<open>'>\<close>.\<close>

definition type_repr :: "pyval \<Rightarrow> string" where
  "type_repr v = ''<class '' @ [CHR 0x27] @ type_name v @ [CHR 0x27] @ ''>''"

text \<open>
  The classes single dispatch sees for a value, most specific first: its method resolution
  order with the abstract base classes it belongs to. Numbers are \<^verbatim>\<open>numbers.Number\<close> and
  not iterable; a mapping is a \<^verbatim>\<open>Mapping\<close> before it is an \<^verbatim>\<open>Iterable\<close>; strings,
  namedtuples, lists, tuples, generators and the tensors of both runtimes are
  \<^verbatim>\<open>Iterable\<close>.
\<close>

fun mro :: "jax_release \<Rightarrow> pyval \<Rightarrow> pyclass list" where
  "mro rel PyNone = [NoneTypeClass, ObjectClass]"
| "mro rel (PyNumber n) = [ConcreteClass (number_type_name n), NumberABC, ObjectClass]"
| "mro rel (PyStr s) = [ConcreteClass ''str'', IterableABC, ObjectClass]"
| "mro rel (TorchTensor t) = [TorchTensorClass, IterableABC, ObjectClass]"
| "mro rel (JaxArray t) =
     (case rel of
        Before_0_6_0 \<Rightarrow>
          [ConcreteClass ''jaxlib.xla_extension.ArrayImpl'', JaxArrayClass, IterableABC, ObjectClass]
      | Since_0_6_0 \<Rightarrow>
          [ConcreteClass ''jaxlib.xla_extension.ArrayImpl'', IterableABC, ObjectClass])"
| "mro rel (PyMapping c kvs) =
     [ConcreteClass (class_name c), MappingABC, IterableABC, ObjectClass]"
| "mro rel (PyNamedTuple T fs) =
     [ConcreteClass T, ConcreteClass ''tuple'', IterableABC, ObjectClass]"
| "mro rel (PySequence c xs) = [ConcreteClass (container_name c), IterableABC, ObjectClass]"
| "mro rel (PyGenerator xs) = [ConcreteClass ''generator'', IterableABC, ObjectClass]"
| "mro rel (PyObject T) = [ConcreteClass T, ObjectClass]"

text \<open>The implementation single dispatch picks: that of the first class of the value
  that is registered, the default (registered for \<^verbatim>\<open>object\<close>) otherwise.\<close>

definition dispatch :: "pyclass list \<Rightarrow> pyclass list \<Rightarrow> pyclass" where
  "dispatch registry classes =
     (case find (\<lambda>c. c \<in> set registry) classes of Some c \<Rightarrow> c | None \<Rightarrow> ObjectClass)"

text \<open>The \<^verbatim>\<open>@torch_to_jax.register(...)\<close> and \<^verbatim>\<open>@jax_to_torch.register(...)\<close> decorators
  of the module, in source order.\<close>

definition torch_to_jax_registry :: "pyclass list" where
  "torch_to_jax_registry = [NumberABC, TorchTensorClass, MappingABC, IterableABC, NoneTypeClass]"

definition jax_to_torch_registry :: "pyclass list" where
  "jax_to_torch_registry = [JaxArrayClass, MappingABC, IterableABC, NoneTypeClass]"

section \<open>Calls into the tensor runtimes\<close>

definition default_device :: device where
  "default_device = DeviceStr ''cpu''"

text \<open>
  The plain numbers \<^verbatim>\<open>jnp.array\<close> makes an array of: every bool, float and complex, and
  the integers of the default integer type (32 bits unless Jax runs in 64-bit mode). On an
  integer out of range it raises \<^verbatim>\<open>OverflowError\<close>.
\<close>

fun jnp_accepts :: "number \<Rightarrow> bool" where
  "jnp_accepts (PyInt i) = (- (2 ^ 31) \<le> i \<and> i < 2 ^ 31)"
| "jnp_accepts n = True"

text \<open>Modelled from the spec: \<^verbatim>\<open>jnp.array(value)\<close> on a plain number, which is not part
  of this module; the spec has it ``wrap into a zero-dimensional tensor of the target
  dialect''. The element is recorded as the Python number: its narrowing to the array's
  dtype (a float to 32 bits) is not modelled, and nothing below depends on it.\<close>

fun jnp_array :: "pyval \<Rightarrow> error + pyval" where
  "jnp_array (PyNumber n) =
     (if jnp_accepts n then Inr (JaxArray (Tensor [] [n] default_device))
      else Inl (OverflowError ''Python int too large to convert to int32''))"
| "jnp_array v = Inl (TypeError ''jnp.array: not a number'')"

text \<open>Modelled from the spec: \<^verbatim>\<open>jax.dlpack.from_dlpack\<close> and
  \<^verbatim>\<open>torch.utils.dlpack.from_dlpack\<close>, which are not part of this module; the spec has
  the result be ``a new tensor handle in the destination dialect aliasing (or, if needed,
  copying) the original buffer'', so dimensions, elements and placement are those of the
  source.\<close>

fun jax_from_dlpack :: "pyval \<Rightarrow> error + pyval" where
  "jax_from_dlpack (TorchTensor t) = Inr (JaxArray t)"
| "jax_from_dlpack v = Inl (TypeError ''from_dlpack: not a tensor of the other runtime'')"

fun torch_from_dlpack :: "pyval \<Rightarrow> error + pyval" where
  "torch_from_dlpack (JaxArray t) = Inr (TorchTensor t)"
| "torch_from_dlpack v = Inl (TypeError ''from_dlpack: not a tensor of the other runtime'')"

text \<open>Modelled from the spec: \<^verbatim>\<open>tensor.to(device=device)\<close>, which is not part of this
  module; the spec calls it ``one additional device-transfer step'': the same tensor,
  placed on the device asked for. The devices of the model are devices torch can move a
  tensor to, and its tensors are tensors the dlpack interchange supports.\<close>

fun tensor_to :: "pyval \<Rightarrow> device \<Rightarrow> error + pyval" where
  "tensor_to (TorchTensor t) d = Inr (TorchTensor (Tensor (shape t) (elems t) d))"
| "tensor_to v d = Inl (TypeError ''to: not a torch tensor'')"

section \<open>What the handlers ask of a value\<close>

text \<open>\<^verbatim>\<open>value.items()\<close>.\<close>

fun py_items :: "pyval \<Rightarrow> (pykey \<times> pyval) list" where
  "py_items (PyMapping c kvs) = kvs"
| "py_items v = []"

text \<open>\<^verbatim>\<open>for v in value\<close>, for the values whose elements are values of the model: the
  fields of a namedtuple, the elements of a list or tuple, what a generator yields, the
  one-character strings of a string.\<close>

fun py_iter :: "pyval \<Rightarrow> pyval list" where
  "py_iter (PyNamedTuple T fs) = fs"
| "py_iter (PySequence c xs) = xs"
| "py_iter (PyGenerator xs) = xs"
| "py_iter (PyStr s) = map (\<lambda>c. PyStr [c]) s"
| "py_iter v = []"

text \<open>\<^verbatim>\<open>hasattr(value, "_make")\<close>.\<close>

fun hasattr_make :: "pyval \<Rightarrow> bool" where
  "hasattr_make (PyNamedTuple T fs) = True"
| "hasattr_make v = False"

text \<open>\<^verbatim>\<open>isinstance(value, jax.Array)\<close>.\<close>

fun isinstance_jax_array :: "pyval \<Rightarrow> bool" where
  "isinstance_jax_array (JaxArray t) = True"
| "isinstance_jax_array v = False"

text \<open>
  \<^verbatim>\<open>type(value)(generator)\<close>. The generator expression is lazy: \<^verbatim>\<open>list\<close> and \<^verbatim>\<open>tuple\<close>
  run it to the end; \<^verbatim>\<open>str\<close> never runs it and returns the text that names the generator
  object (its address is not modelled); the tensor classes refuse a generator argument
  with a \<^verbatim>\<open>TypeError\<close>, as the comment in \<^verbatim>\<open>_jax_iterable_to_torch\<close> reports, and
  the class of generator objects cannot be called at all.
\<close>

fun consumes_iterable :: "pyval \<Rightarrow> bool" where
  "consumes_iterable (PySequence c xs) = True"
| "consumes_iterable v = False"

fun call_type_consumed :: "pyval \<Rightarrow> pyval list \<Rightarrow> error + pyval" where
  "call_type_consumed (PySequence c xs) vs = Inr (PySequence c vs)"
| "call_type_consumed v vs = Inl (TypeError ''incompatible constructor arguments'')"

definition generator_repr :: "string \<Rightarrow> string" where
  "generator_repr f = ''<generator object '' @ f @ ''.<locals>.<genexpr> at 0x...>''"

fun call_type_unconsumed :: "pyval \<Rightarrow> string \<Rightarrow> error + pyval" where
  "call_type_unconsumed (PyStr s) f = Inr (PyStr (generator_repr f))"
| "call_type_unconsumed (PyGenerator xs) f =
     Inl (TypeError ''cannot create 'generator' instances'')"
| "call_type_unconsumed v f = Inl (TypeError ''incompatible constructor arguments'')"

text \<open>\<^verbatim>\<open>type(value)._make(generator)\<close>: the namedtuple of the same class with the fields
  given, which must be as many as the class has.\<close>

definition call_type_make :: "pyval \<Rightarrow> pyval list \<Rightarrow> error + pyval" where
  "call_type_make v fs =
     (if length fs = length (py_iter v) then Inr (PyNamedTuple (type_name v) fs)
      else Inl (TypeError ''wrong number of fields''))"

text \<open>A dict comprehension \<^verbatim>\<open>{k: ... for k, v in value.items()}\<close> stores its pairs one
  by one; a key stored twice keeps its first position and its last value.\<close>

fun dict_setitem :: "pykey \<Rightarrow> 'v \<Rightarrow> (pykey \<times> 'v) list \<Rightarrow> (pykey \<times> 'v) list" where
  "dict_setitem k v [] = [(k, v)]"
| "dict_setitem k v ((k', v') # d) =
     (if k = k' then (k, v) # d else (k', v') # dict_setitem k v d)"

definition dict_of_pairs :: "(pykey \<times> 'v) list \<Rightarrow> (pykey \<times> 'v) list" where
  "dict_of_pairs kvs = foldl (\<lambda>d (k, v). dict_setitem k v d) [] kvs"

fun is_str_key :: "pykey \<Rightarrow> bool" where
  "is_str_key (KStr s) = True"
| "is_str_key (KInt i) = False"

text \<open>\<^verbatim>\<open>type(value)(**kwargs)\<close>: Python refuses keywords that are not strings; a mapping
  class that takes keyword arguments (the spec: ``must support mapping types constructible
  from keyword-style key/value pairs'') builds the mapping that holds them; the other
  mapping classes raise \<^verbatim>\<open>TypeError\<close>, \<^verbatim>\<open>ChainMap\<close> unless there is no keyword.\<close>

fun call_type_kwargs :: "pyval \<Rightarrow> (pykey \<times> pyval) list \<Rightarrow> error + pyval" where
  "call_type_kwargs (PyMapping c kvs) kwargs =
     (if \<not> list_all is_str_key (map fst kwargs) then Inl (TypeError ''keywords must be strings'')
      else case kwargs_call c of
             BuildsFromKwargs \<Rightarrow> Inr (PyMapping c kwargs)
           | EmptyCallOnly \<Rightarrow>
               (if kwargs = [] then Inr (PyMapping c [])
                else Inl (TypeError ''got an unexpected keyword argument''))
           | NeverCallable \<Rightarrow> Inl (TypeError ''missing required argument''))"
| "call_type_kwargs v kwargs = Inl (TypeError ''not a mapping'')"

section \<open>The converters\<close>

text \<open>
  \<^verbatim>\<open>torch_to_jax\<close> with its registered implementations, in source order:
  \<^verbatim>\<open>_number_torch_to_jax\<close>, \<^verbatim>\<open>_tensor_torch_to_jax\<close>, \<^verbatim>\<open>_mapping_torch_to_jax\<close>,
  \<^verbatim>\<open>_iterable_torch_to_jax\<close>, \<^verbatim>\<open>_none_torch_to_jax\<close>, and the default that raises.
\<close>

function torch_to_jax :: "jax_release \<Rightarrow> pyval \<Rightarrow> error + pyval" where
  "torch_to_jax rel v =
     (case dispatch torch_to_jax_registry (mro rel v) of
        NumberABC \<Rightarrow> jnp_array v
      | TorchTensorClass \<Rightarrow> jax_from_dlpack v
      | MappingABC \<Rightarrow>
          bind (sequence (map (\<lambda>(k, x). map_sum id (Pair k) (torch_to_jax rel x)) (py_items v)))
            (\<lambda>kvs. call_type_kwargs v (dict_of_pairs kvs))
      | IterableABC \<Rightarrow>
          (if hasattr_make v then
             bind (sequence (map (torch_to_jax rel) (py_iter v))) (call_type_make v)
           else if consumes_iterable v then
             bind (sequence (map (torch_to_jax rel) (py_iter v))) (call_type_consumed v)
           else call_type_unconsumed v ''_iterable_torch_to_jax'')
      | NoneTypeClass \<Rightarrow> Inr v
      | _ \<Rightarrow> Inl (Exception (''No known conversion for Torch type ('' @ type_repr v
                  @ '') to Jax registered. Report as issue on github.'')))"
  by pat_completeness auto
termination
proof (relation "measure (\<lambda>(rel, v). size v)", goal_cases)
  case 1
  show ?case by simp
next
  case (2 rel v kv k x)
  then show ?case
    by (cases v) (auto simp: less_Suc_eq_le intro!: size_list_estimation')
next
  case (3 rel v x)
  then show ?case
    by (cases v) (auto simp: less_Suc_eq_le intro!: size_list_estimation')
next
  case (4 rel v x)
  then show ?case
    by (cases v) (auto simp: less_Suc_eq_le intro!: size_list_estimation')
qed

declare torch_to_jax.simps [simp del]

text \<open>\<^verbatim>\<open>if device:\<close> on a \<^verbatim>\<open>Device | None\<close>: \<^verbatim>\<open>None\<close> and the empty string are false.\<close>

fun device_truthy :: "device option \<Rightarrow> bool" where
  "device_truthy None = False"
| "device_truthy (Some (DeviceStr s)) = (s \<noteq> [])"
| "device_truthy (Some (TorchDevice ty idx)) = True"

text \<open>\<^verbatim>\<open>_devicearray_jax_to_torch\<close>.\<close>

definition devicearray_jax_to_torch :: "pyval \<Rightarrow> device option \<Rightarrow> error + pyval" where
  "devicearray_jax_to_torch v dev =
     bind (torch_from_dlpack v)
       (\<lambda>tensor. case dev of
                    None \<Rightarrow> Inr tensor
                  | Some d \<Rightarrow> if device_truthy dev then tensor_to tensor d else Inr tensor)"

text \<open>
  \<^verbatim>\<open>jax_to_torch\<close> with its registered implementations, in source order:
  \<^verbatim>\<open>_devicearray_jax_to_torch\<close>, \<^verbatim>\<open>_jax_mapping_to_torch\<close>, \<^verbatim>\<open>_jax_iterable_to_torch\<close>
  (which hands a Jax array to \<^verbatim>\<open>_devicearray_jax_to_torch\<close> without the device),
  \<^verbatim>\<open>_none_jax_to_torch\<close>, and the default that raises.
\<close>

function jax_to_torch :: "jax_release \<Rightarrow> pyval \<Rightarrow> device option \<Rightarrow> error + pyval" where
  "jax_to_torch rel v dev =
     (case dispatch jax_to_torch_registry (mro rel v) of
        JaxArrayClass \<Rightarrow> devicearray_jax_to_torch v dev
      | MappingABC \<Rightarrow>
          bind (sequence (map (\<lambda>(k, x). map_sum id (Pair k) (jax_to_torch rel x dev)) (py_items v)))
            (\<lambda>kvs. call_type_kwargs v (dict_of_pairs kvs))
      | IterableABC \<Rightarrow>
          (if isinstance_jax_array v then devicearray_jax_to_torch v None
           else if hasattr_make v then
             bind (sequence (map (\<lambda>x. jax_to_torch rel x dev) (py_iter v))) (call_type_make v)
           else if consumes_iterable v then
             bind (sequence (map (\<lambda>x. jax_to_torch rel x dev) (py_iter v))) (call_type_consumed v)
           else call_type_unconsumed v ''_jax_iterable_to_torch'')
      | NoneTypeClass \<Rightarrow> Inr v
      | _ \<Rightarrow> Inl (Exception (''No known conversion for Jax type ('' @ type_repr v
                  @ '') to PyTorch registered. Report as issue on github.'')))"
  by pat_completeness auto
termination
proof (relation "measure (\<lambda>(rel, v, dev). size v)", goal_cases)
  case 1
  show ?case by simp
next
  case (2 rel v dev kv k x)
  then show ?case
    by (cases v) (auto simp: less_Suc_eq_le intro!: size_list_estimation')
next
  case (3 rel v dev x)
  then show ?case
    by (cases v) (auto simp: less_Suc_eq_le intro!: size_list_estimation')
next
  case (4 rel v dev x)
  then show ?case
    by (cases v) (auto simp: less_Suc_eq_le intro!: size_list_estimation')
qed

declare jax_to_torch.simps [simp del]

section \<open>The wrapper \<^verbatim>\<open>JaxToTorch\<close>\<close>

text \<open>
  The wrapped environment is an object with a state of its own. Its methods take the
  state and return the new one with their result; they may raise. \<^verbatim>\<open>step\<close> returns
  the five values the wrapper unpacks, \<^verbatim>\<open>reset\<close> and \<^verbatim>\<open>render\<close> one value.
\<close>

record 's gym_env =
  env_step :: "pyval \<Rightarrow> 's \<Rightarrow> (error + pyval \<times> pyval \<times> pyval \<times> pyval \<times> pyval) \<times> 's"
  env_reset :: "int option \<Rightarrow> pyval \<Rightarrow> 's \<Rightarrow> (error + pyval) \<times> 's"
  env_render :: "'s \<Rightarrow> (error + pyval) \<times> 's"

text \<open>\<^verbatim>\<open>self.env\<close> and \<^verbatim>\<open>self.device\<close>, as \<^verbatim>\<open>__init__\<close> stores them.\<close>

record 's JaxToTorch =
  env :: "'s gym_env"
  device :: "device option"

text \<open>\<^verbatim>\<open>0.0\<close> and \<^verbatim>\<open>-0.0\<close> are the floats that are false.\<close>

definition float_nonzero :: "float64 \<Rightarrow> bool" where
  "float_nonzero x = (x \<noteq> 0 \<and> x \<noteq> 0x8000000000000000)"

fun number_nonzero :: "number \<Rightarrow> bool" where
  "number_nonzero (PyBool b) = b"
| "number_nonzero (PyInt i) = (i \<noteq> 0)"
| "number_nonzero (PyFloat x) = float_nonzero x"
| "number_nonzero (PyComplex re im) = (float_nonzero re \<or> float_nonzero im)"

text \<open>
  \<^verbatim>\<open>bool(value)\<close>, also the test of \<^verbatim>\<open>if value:\<close>. \<^verbatim>\<open>None\<close>, zero and the empty
  containers are false; a tensor of one element is as true as the element, a tensor of any
  other size raises; an object without \<^verbatim>\<open>__bool__\<close> and \<^verbatim>\<open>__len__\<close> (a generator
  too) is true.
\<close>

fun py_bool :: "pyval \<Rightarrow> error + bool" where
  "py_bool PyNone = Inr False"
| "py_bool (PyNumber n) = Inr (number_nonzero n)"
| "py_bool (PyStr s) = Inr (s \<noteq> [])"
| "py_bool (TorchTensor t) =
     (case elems t of
        [x] \<Rightarrow> Inr (number_nonzero x)
      | _ \<Rightarrow> Inl (RuntimeError ''Boolean value of Tensor is ambiguous''))"
| "py_bool (JaxArray t) =
     (case elems t of
        [x] \<Rightarrow> Inr (number_nonzero x)
      | _ \<Rightarrow> Inl (ValueError ''The truth value of an array is ambiguous''))"
| "py_bool (PyMapping c kvs) = Inr (kvs \<noteq> [])"
| "py_bool (PyNamedTuple T fs) = Inr (fs \<noteq> [])"
| "py_bool (PySequence c xs) = Inr (xs \<noteq> [])"
| "py_bool (PyGenerator xs) = Inr True"
| "py_bool (PyObject T) = Inr True"

text \<open>
  \<^verbatim>\<open>JaxToTorch.step\<close>. The builtin \<^verbatim>\<open>float\<close> is a parameter, \<open>py_float\<close>: it calls
  \<^verbatim>\<open>__float__\<close> of whatever the environment returned as reward, rounds integers and parses
  strings, none of which is this module's; what Python fixes is that it returns a float or
  raises. The returned tuple is built left to right, so the first exception wins.
\<close>

definition step ::
  "(pyval \<Rightarrow> error + float64) \<Rightarrow> jax_release \<Rightarrow> 's JaxToTorch \<Rightarrow> pyval \<Rightarrow> 's
     \<Rightarrow> (error + pyval \<times> pyval \<times> pyval \<times> pyval \<times> pyval) \<times> 's" where
  "step py_float rel self action s =
     (case torch_to_jax rel action of
        Inl e \<Rightarrow> (Inl e, s)
      | Inr jax_action \<Rightarrow>
          (case env_step (env self) jax_action s of
             (Inl e, s') \<Rightarrow> (Inl e, s')
           | (Inr (obs, reward, terminated, truncated, info), s') \<Rightarrow>
               (bind (jax_to_torch rel obs (device self)) (\<lambda>obs'.
                bind (py_float reward) (\<lambda>reward'.
                bind (py_bool terminated) (\<lambda>terminated'.
                bind (py_bool truncated) (\<lambda>truncated'.
                bind (jax_to_torch rel info (device self)) (\<lambda>info'.
                  Inr (obs', PyNumber (PyFloat reward'), PyNumber (PyBool terminated'),
                       PyNumber (PyBool truncated'), info')))))),
                s')))"

text \<open>\<^verbatim>\<open>JaxToTorch.reset\<close>: \<^verbatim>\<open>if options:\<close> tests the truth of \<^verbatim>\<open>options\<close>.\<close>

definition reset ::
  "jax_release \<Rightarrow> 's JaxToTorch \<Rightarrow> int option \<Rightarrow> pyval \<Rightarrow> 's \<Rightarrow> (error + pyval) \<times> 's" where
  "reset rel self seed options s =
     (case py_bool options of
        Inl e \<Rightarrow> (Inl e, s)
      | Inr truthy \<Rightarrow>
          (case (if truthy then torch_to_jax rel options else Inr options) of
             Inl e \<Rightarrow> (Inl e, s)
           | Inr options' \<Rightarrow>
               (case env_reset (env self) seed options' s of
                  (Inl e, s') \<Rightarrow> (Inl e, s')
                | (Inr r, s') \<Rightarrow> (jax_to_torch rel r (device self), s'))))"

text \<open>\<^verbatim>\<open>JaxToTorch.render\<close>: \<^verbatim>\<open>jax_to_torch\<close> is called without a device.\<close>

definition render :: "jax_release \<Rightarrow> 's JaxToTorch \<Rightarrow> 's \<Rightarrow> (error + pyval) \<times> 's" where
  "render rel self s =
     (case env_render (env self) s of
        (Inl e, s') \<Rightarrow> (Inl e, s')
      | (Inr frame, s') \<Rightarrow> (jax_to_torch rel frame None, s'))"

section \<open>Notions the properties are stated with\<close>

text \<open>The rule for generic iterables, the last branch of \<^verbatim>\<open>_jax_iterable_to_torch\<close>:
  \<^verbatim>\<open>type(value)(jax_to_torch(v, device) for v in value)\<close>.\<close>

definition jax_iterable_rebuild :: "jax_release \<Rightarrow> pyval \<Rightarrow> device option \<Rightarrow> error + pyval" where
  "jax_iterable_rebuild rel v dev =
     (if consumes_iterable v then
        bind (sequence (map (\<lambda>x. jax_to_torch rel x dev) (py_iter v))) (call_type_consumed v)
      else call_type_unconsumed v ''_jax_iterable_to_torch'')"

text \<open>The six shapes of the spec's table: absence marker, scalar number, native tensor
  (of either runtime), mapping, field-rebuildable record, generic iterable.\<close>

fun recognized_shape :: "pyval \<Rightarrow> bool" where
  "recognized_shape PyNone = True"
| "recognized_shape (PyNumber n) = True"
| "recognized_shape (TorchTensor t) = True"
| "recognized_shape (JaxArray t) = True"
| "recognized_shape (PyMapping c kvs) = True"
| "recognized_shape (PyNamedTuple T fs) = True"
| "recognized_shape (PySequence c xs) = True"
| "recognized_shape (PyGenerator xs) = True"
| "recognized_shape (PyStr s) = True"
| "recognized_shape (PyObject T) = False"



text \<open>A plain Python float, a plain Python bool: not a tensor, not another number.\<close>

fun is_plain_float :: "pyval \<Rightarrow> bool" where
  "is_plain_float (PyNumber (PyFloat x)) = True"
| "is_plain_float v = False"

fun is_plain_bool :: "pyval \<Rightarrow> bool" where
  "is_plain_bool (PyNumber (PyBool b)) = True"
| "is_plain_bool v = False"

text \<open>The declared type of \<^verbatim>\<open>options\<close> in \<^verbatim>\<open>reset\<close>: \<^verbatim>\<open>dict[str, Any] | None\<close>. A
  \<^verbatim>\<open>dict\<close> is a mapping of a class that builds from keyword arguments.\<close>

fun is_options :: "pyval \<Rightarrow> bool" where
  "is_options PyNone = True"
| "is_options (PyMapping c kvs) = (kwargs_call c = BuildsFromKwargs)"
| "is_options v = False"

text \<open>
  \<^verbatim>\<open>reset\<close> in the spec's words: ``\<^verbatim>\<open>options\<close>, if present, is [...] converted to
  dialect A before delegation; \<^verbatim>\<open>seed\<close> passes through unchanged; returns the wrapped
  environment's (observation, info) converted A\<open>\<rightarrow>\<close>B''. Present is: not \<^verbatim>\<open>None\<close>.
\<close>

definition reset_spec ::
  "jax_release \<Rightarrow> 's JaxToTorch \<Rightarrow> int option \<Rightarrow> pyval \<Rightarrow> 's \<Rightarrow> (error + pyval) \<times> 's" where
  "reset_spec rel self seed options s =
     (case (if options = PyNone then Inr PyNone else torch_to_jax rel options) of
        Inl e \<Rightarrow> (Inl e, s)
      | Inr jax_options \<Rightarrow>
          (case env_reset (env self) seed jax_options s of
             (Inl e, s') \<Rightarrow> (Inl e, s')
           | (Inr r, s') \<Rightarrow> (jax_to_torch rel r (device self), s')))"

section \<open>An environment for the examples\<close>

text \<open>
  The state of this environment is the seed and the options of its last \<^verbatim>\<open>reset\<close>.
  \<^verbatim>\<open>step\<close> echoes the action as observation and reports the reward and \<^verbatim>\<open>terminated\<close>
  as Jax arrays; \<^verbatim>\<open>reset\<close> returns \<^verbatim>\<open>({"pos": [1.0, 2.0]}, {})\<close> with a Jax array under
  \<^verbatim>\<open>pos\<close>; \<^verbatim>\<open>render\<close> returns one pixel as a Jax array. (\<open>0x3FE0000000000000\<close>,
  \<open>0x3FF0000000000000\<close> and \<open>0x4000000000000000\<close> are the doubles 0.5, 1.0 and 2.0.)
\<close>

definition recording_env :: "(int option \<times> pyval) gym_env" where
  "recording_env =
     \<lparr>env_step = (\<lambda>action s.
         (Inr (action,
               JaxArray (Tensor [] [PyFloat 0x3FF0000000000000] (DeviceStr ''cpu'')),
               JaxArray (Tensor [] [PyBool False] (DeviceStr ''cpu'')),
               PyNumber (PyBool True),
               PyMapping dict_class []), s)),
      env_reset = (\<lambda>seed options s.
         (Inr (PySequence TupleType
                 [PyMapping dict_class
                    [(KStr ''pos'',
                      JaxArray (Tensor [2] [PyFloat 0x3FF0000000000000, PyFloat 0x4000000000000000]
                                  (DeviceStr ''cpu'')))],
                  PyMapping dict_class []]),
          (seed, options))),
      env_render = (\<lambda>s. (Inr (JaxArray (Tensor [1, 1, 3] [PyInt 0, PyInt 128, PyInt 255]
                                           (DeviceStr ''cpu''))), s))\<rparr>"

text \<open>A \<^verbatim>\<open>float\<close> for the examples: it reads a float and a Jax array of one float.\<close>

fun float_of_scalar :: "pyval \<Rightarrow> error + float64" where
  "float_of_scalar (PyNumber (PyFloat x)) = Inr x"
| "float_of_scalar (JaxArray t) =
     (case elems t of
        [PyFloat x] \<Rightarrow> Inr x
      | _ \<Rightarrow> Inl (TypeError ''float() of this array is not modelled''))"
| "float_of_scalar v = Inl (TypeError ''float() argument must be a string or a real number'')"

section \<open>The converters, class by class\<close>

text \<open>Which implementation each class of value reaches, and what it computes there.
  \<^verbatim>\<open>jax_to_torch\<close> registers nothing for \<^verbatim>\<open>numbers.Number\<close>: a number reaches its
  default implementation.\<close>

lemma torch_dispatch:
  "dispatch torch_to_jax_registry (mro rel PyNone) = NoneTypeClass"
  "dispatch torch_to_jax_registry (mro rel (PyNumber n)) = NumberABC"
  "dispatch torch_to_jax_registry (mro rel (PyStr s)) = IterableABC"
  "dispatch torch_to_jax_registry (mro rel (TorchTensor t)) = TorchTensorClass"
  "dispatch torch_to_jax_registry (mro rel (JaxArray t)) = IterableABC"
  "dispatch torch_to_jax_registry (mro rel (PyMapping mc kvs)) = MappingABC"
  "dispatch torch_to_jax_registry (mro rel (PyNamedTuple T fs)) = IterableABC"
  "dispatch torch_to_jax_registry (mro rel (PySequence c xs)) = IterableABC"
  "dispatch torch_to_jax_registry (mro rel (PyGenerator xs)) = IterableABC"
  "dispatch torch_to_jax_registry (mro rel (PyObject T)) = ObjectClass"
  by (simp_all add: dispatch_def torch_to_jax_registry_def split: jax_release.split)

lemma jax_dispatch:
  "dispatch jax_to_torch_registry (mro rel PyNone) = NoneTypeClass"
  "dispatch jax_to_torch_registry (mro rel (PyNumber n)) = ObjectClass"
  "dispatch jax_to_torch_registry (mro rel (PyStr s)) = IterableABC"
  "dispatch jax_to_torch_registry (mro rel (TorchTensor t)) = IterableABC"
  "dispatch jax_to_torch_registry (mro Before_0_6_0 (JaxArray t)) = JaxArrayClass"
  "dispatch jax_to_torch_registry (mro Since_0_6_0 (JaxArray t)) = IterableABC"
  "dispatch jax_to_torch_registry (mro rel (PyMapping mc kvs)) = MappingABC"
  "dispatch jax_to_torch_registry (mro rel (PyNamedTuple T fs)) = IterableABC"
  "dispatch jax_to_torch_registry (mro rel (PySequence c xs)) = IterableABC"
  "dispatch jax_to_torch_registry (mro rel (PyGenerator xs)) = IterableABC"
  "dispatch jax_to_torch_registry (mro rel (PyObject T)) = ObjectClass"
  by (simp_all add: dispatch_def jax_to_torch_registry_def)

lemma torch_to_jax_None [simp]: "torch_to_jax rel PyNone = Inr PyNone"
  by (simp add: torch_to_jax.simps [of rel PyNone] dispatch_def torch_to_jax_registry_def)

lemma torch_to_jax_Number [simp]:
  "torch_to_jax rel (PyNumber n) = jnp_array (PyNumber n)"
  by (simp add: torch_to_jax.simps [of rel "PyNumber n"] dispatch_def torch_to_jax_registry_def)

lemma torch_to_jax_Str [simp]:
  "torch_to_jax rel (PyStr s) = Inr (PyStr (generator_repr ''_iterable_torch_to_jax''))"
  by (simp add: torch_to_jax.simps [of rel "PyStr s"] dispatch_def torch_to_jax_registry_def)

lemma torch_to_jax_TorchTensor [simp]: "torch_to_jax rel (TorchTensor t) = Inr (JaxArray t)"
  by (simp add: torch_to_jax.simps [of rel "TorchTensor t"] dispatch_def torch_to_jax_registry_def)

lemma torch_to_jax_JaxArray [simp]:
  "torch_to_jax rel (JaxArray t) = Inl (TypeError ''incompatible constructor arguments'')"
  by (simp add: torch_to_jax.simps [of rel "JaxArray t"] dispatch_def torch_to_jax_registry_def
        split: jax_release.split)

lemma torch_to_jax_Mapping:
  "torch_to_jax rel (PyMapping c kvs) =
     bind (sequence (map (\<lambda>(k, x). map_sum id (Pair k) (torch_to_jax rel x)) kvs))
       (\<lambda>kvs'. call_type_kwargs (PyMapping c kvs) (dict_of_pairs kvs'))"
  by (simp add: torch_to_jax.simps [of rel "PyMapping c kvs"] dispatch_def torch_to_jax_registry_def)

lemma torch_to_jax_NamedTuple:
  "torch_to_jax rel (PyNamedTuple T fs) =
     bind (sequence (map (torch_to_jax rel) fs)) (call_type_make (PyNamedTuple T fs))"
  by (simp add: torch_to_jax.simps [of rel "PyNamedTuple T fs"] dispatch_def torch_to_jax_registry_def)


lemma torch_to_jax_Generator [simp]:
  "torch_to_jax rel (PyGenerator xs) = Inl (TypeError ''cannot create 'generator' instances'')"
  by (simp add: torch_to_jax.simps [of rel "PyGenerator xs"] dispatch_def torch_to_jax_registry_def)

lemma torch_to_jax_Object [simp]:
  "torch_to_jax rel (PyObject T) =
     Inl (Exception (''No known conversion for Torch type ('' @ type_repr (PyObject T)
            @ '') to Jax registered. Report as issue on github.''))"
  by (simp add: torch_to_jax.simps [of rel "PyObject T"] dispatch_def torch_to_jax_registry_def)

lemma jax_to_torch_None [simp]: "jax_to_torch rel PyNone dev = Inr PyNone"
  by (simp add: jax_to_torch.simps [of rel PyNone] dispatch_def jax_to_torch_registry_def)

lemma jax_to_torch_Number [simp]:
  "jax_to_torch rel (PyNumber n) dev =
     Inl (Exception (''No known conversion for Jax type ('' @ type_repr (PyNumber n)
            @ '') to PyTorch registered. Report as issue on github.''))"
  by (simp add: jax_to_torch.simps [of rel "PyNumber n"] dispatch_def jax_to_torch_registry_def)

lemma jax_to_torch_Str [simp]:
  "jax_to_torch rel (PyStr s) dev = Inr (PyStr (generator_repr ''_jax_iterable_to_torch''))"
  by (simp add: jax_to_torch.simps [of rel "PyStr s"] dispatch_def jax_to_torch_registry_def)

lemma jax_to_torch_TorchTensor [simp]:
  "jax_to_torch rel (TorchTensor t) dev = Inl (TypeError ''incompatible constructor arguments'')"
  by (simp add: jax_to_torch.simps [of rel "TorchTensor t"] dispatch_def jax_to_torch_registry_def)

lemma jax_to_torch_JaxArray:
  "jax_to_torch rel (JaxArray t) dev =
     devicearray_jax_to_torch (JaxArray t) (case rel of Before_0_6_0 \<Rightarrow> dev | Since_0_6_0 \<Rightarrow> None)"
  by (cases rel) (simp_all add: jax_to_torch.simps [of _ "JaxArray t"] dispatch_def jax_to_torch_registry_def)

lemma jax_to_torch_Mapping:
  "jax_to_torch rel (PyMapping c kvs) dev =
     bind (sequence (map (\<lambda>(k, x). map_sum id (Pair k) (jax_to_torch rel x dev)) kvs))
       (\<lambda>kvs'. call_type_kwargs (PyMapping c kvs) (dict_of_pairs kvs'))"
  by (simp add: jax_to_torch.simps [of rel "PyMapping c kvs"] dispatch_def jax_to_torch_registry_def)

lemma jax_to_torch_NamedTuple:
  "jax_to_torch rel (PyNamedTuple T fs) dev =
     bind (sequence (map (\<lambda>x. jax_to_torch rel x dev) fs)) (call_type_make (PyNamedTuple T fs))"
  by (simp add: jax_to_torch.simps [of rel "PyNamedTuple T fs"] dispatch_def jax_to_torch_registry_def)

lemma jax_to_torch_Sequence:
  "jax_to_torch rel (PySequence c xs) dev =
     bind (sequence (map (\<lambda>x. jax_to_torch rel x dev) xs)) (\<lambda>vs. Inr (PySequence c vs))"
  by (cases "sequence (map (\<lambda>x. jax_to_torch rel x dev) xs)")
     (simp_all add: jax_to_torch.simps [of rel "PySequence c xs"] dispatch_def jax_to_torch_registry_def)

lemma jax_to_torch_Generator [simp]:
  "jax_to_torch rel (PyGenerator xs) dev =
     Inl (TypeError ''cannot create 'generator' instances'')"
  by (simp add: jax_to_torch.simps [of rel "PyGenerator xs"] dispatch_def jax_to_torch_registry_def)

lemma jax_to_torch_Object [simp]:
  "jax_to_torch rel (PyObject T) dev =
     Inl (Exception (''No known conversion for Jax type ('' @ type_repr (PyObject T)
            @ '') to PyTorch registered. Report as issue on github.''))"
  by (simp add: jax_to_torch.simps [of rel "PyObject T"] dispatch_def jax_to_torch_registry_def)

section \<open>Rebuilding containers\<close>

text \<open>When consuming the conversions of the children succeeds, and what the rebuilt
  container then is. A comprehension over distinct keys stores the pairs as they come.\<close>

lemma sequence_map_Inr_iff:
  "sequence (map f xs) = Inr ys \<longleftrightarrow> list_all2 (\<lambda>x y. f x = Inr y) xs ys"
proof (induction xs arbitrary: ys)
  case Nil
  then show ?case by auto
next
  case (Cons x xs)
  show ?case
  proof (cases "f x")
    case (Inl e)
    then show ?thesis by (auto simp: list_all2_Cons1)
  next
    case (Inr y)
    then show ?thesis
      using Cons.IH by (cases "sequence (map f xs)") (auto simp: list_all2_Cons1)
  qed
qed

lemma bind_Inr_iff: "bind m f = Inr r \<longleftrightarrow> (\<exists>x. m = Inr x \<and> f x = Inr r)"
  by (cases m) auto









lemma namedtuple_rebuild_iff:
  "bind (sequence (map f fs)) (call_type_make (PyNamedTuple T fs)) = Inr r
     \<longleftrightarrow> (\<exists>fs'. r = PyNamedTuple T fs' \<and> list_all2 (\<lambda>x y. f x = Inr y) fs fs')"
proof (rule iffI)
  assume "bind (sequence (map f fs)) (call_type_make (PyNamedTuple T fs)) = Inr r"
  then obtain fs' where s: "sequence (map f fs) = Inr fs'"
    and m: "call_type_make (PyNamedTuple T fs) fs' = Inr r"
    by (auto simp: bind_Inr_iff)
  from s have l: "list_all2 (\<lambda>x y. f x = Inr y) fs fs'" by (simp add: sequence_map_Inr_iff)
  from m have "r = PyNamedTuple T fs'" by (simp add: call_type_make_def split: if_splits)
  with l show "\<exists>fs'. r = PyNamedTuple T fs' \<and> list_all2 (\<lambda>x y. f x = Inr y) fs fs'" by blast
next
  assume "\<exists>fs'. r = PyNamedTuple T fs' \<and> list_all2 (\<lambda>x y. f x = Inr y) fs fs'"
  then obtain fs' where r: "r = PyNamedTuple T fs'"
    and l: "list_all2 (\<lambda>x y. f x = Inr y) fs fs'" by blast
  from l have s: "sequence (map f fs) = Inr fs'" by (simp add: sequence_map_Inr_iff)
  from l have "length fs' = length fs" by (simp add: list_all2_lengthD)
  then show "bind (sequence (map f fs)) (call_type_make (PyNamedTuple T fs)) = Inr r"
    by (simp add: s r call_type_make_def)
qed









lemma torch_to_jax_empty_mapping:
  "kwargs_call c = BuildsFromKwargs \<Longrightarrow> torch_to_jax rel (PyMapping c []) = Inr (PyMapping c [])"
  by (simp add: torch_to_jax_Mapping dict_of_pairs_def)

section \<open>Scalar numbers (C1)\<close>

text \<open>
  As stated, C1 has both converters wrap every plain number into a zero-dimensional
  tensor. \<^verbatim>\<open>torch_to_jax(2**64)\<close> raises: \<^verbatim>\<open>jnp.array\<close> refuses an integer beyond its
  integer type. \<^verbatim>\<open>jax_to_torch(3)\<close> raises: \<^verbatim>\<open>int\<close> belongs to none of the classes
  registered with \<^verbatim>\<open>jax_to_torch\<close>.
\<close>

theorem scalar_conversion_counterexample:
  "torch_to_jax Since_0_6_0 (PyNumber (PyInt 18446744073709551616)) =
     Inl (OverflowError ''Python int too large to convert to int32'')
   \<and> jax_to_torch Since_0_6_0 (PyNumber (PyInt 3)) None =
     Inl (Exception ''No known conversion for Jax type (<class 'int'>) to PyTorch registered. Report as issue on github.'')"
  by (simp add: type_repr_def)

text \<open>
  C1, amended: for every plain Python number that \<^verbatim>\<open>jnp.array\<close> accepts (every bool, float
  and complex, and every integer of the default integer range), \<^verbatim>\<open>torch_to_jax\<close> returns
  a zero-dimensional Jax array rather than failing. What \<^verbatim>\<open>jax_to_torch\<close> does on a plain
  number is left out of the statement.
\<close>

theorem number_conversion:
  assumes "jnp_accepts n"
  shows "\<exists>t. torch_to_jax rel (PyNumber n) = Inr (JaxArray t) \<and> shape t = []"
  using assms by simp

theorem number_conversion_witness:
  "jnp_accepts (PyComplex 0 0x3FF0000000000000)
   \<and> (\<exists>t. torch_to_jax Since_0_6_0 (PyNumber (PyComplex 0 0x3FF0000000000000)) = Inr (JaxArray t)
        \<and> shape t = [])"
  using number_conversion [of "PyComplex 0 0x3FF0000000000000" Since_0_6_0] by simp

section \<open>\<^verbatim>\<open>render\<close> (C2)\<close>

text \<open>
  C2 has \<^verbatim>\<open>render\<close> return the output of the wrapped environment unconverted, as the
  docstring of the class has it (``For \<^verbatim>\<open>rendered\<close> this is returned as a NumPy array not
  a pytorch Tensor''). The code passes the output through \<^verbatim>\<open>jax_to_torch\<close>: the example
  environment renders a Jax array, and the wrapper's \<^verbatim>\<open>render\<close> returns a torch tensor.
\<close>

theorem render_returns_torch_tensor:
  "env_render recording_env (None, PyNone) =
     (Inr (JaxArray (Tensor [1, 1, 3] [PyInt 0, PyInt 128, PyInt 255] (DeviceStr ''cpu''))),
      (None, PyNone))
   \<and> render Since_0_6_0 \<lparr>env = recording_env, device = None\<rparr> (None, PyNone) =
     (Inr (TorchTensor (Tensor [1, 1, 3] [PyInt 0, PyInt 128, PyInt 255] (DeviceStr ''cpu''))),
      (None, PyNone))"
  by (simp add: render_def recording_env_def jax_to_torch_JaxArray devicearray_jax_to_torch_def)

section \<open>Where the converters return (C3)\<close>




section \<open>\<^verbatim>\<open>step\<close> (C4)\<close>

text \<open>
  C4: for every action and every five values the wrapped environment's \<^verbatim>\<open>step\<close> returns,
  whenever the wrapper's \<^verbatim>\<open>step\<close> returns, its reward is a plain float, the \<^verbatim>\<open>float\<close> of
  the environment's reward, and \<^verbatim>\<open>terminated\<close> and \<^verbatim>\<open>truncated\<close> are plain booleans, the
  \<^verbatim>\<open>bool\<close> of the environment's, whatever their types were; observation and info are
  converted with the wrapper's device. (It raises when a conversion, \<^verbatim>\<open>float\<close> or
  \<^verbatim>\<open>bool\<close> raises.)
\<close>

theorem step_scalar_coercion:
  assumes "step py_float rel self action s = (Inr (obs', reward', terminated', truncated', info'), s')"
  shows "is_plain_float reward' \<and> is_plain_bool terminated' \<and> is_plain_bool truncated'
       \<and> (\<exists>jax_action obs reward terminated truncated info x b c.
            torch_to_jax rel action = Inr jax_action \<and>
            env_step (env self) jax_action s = (Inr (obs, reward, terminated, truncated, info), s') \<and>
            jax_to_torch rel obs (device self) = Inr obs' \<and>
            py_float reward = Inr x \<and> reward' = PyNumber (PyFloat x) \<and>
            py_bool terminated = Inr b \<and> terminated' = PyNumber (PyBool b) \<and>
            py_bool truncated = Inr c \<and> truncated' = PyNumber (PyBool c) \<and>
            jax_to_torch rel info (device self) = Inr info')"
  using assms
  by (auto simp: step_def bind_Inr_iff split: sum.splits prod.splits)

theorem step_scalar_coercion_witness:
  "step float_of_scalar Since_0_6_0 \<lparr>env = recording_env, device = None\<rparr>
      (TorchTensor (Tensor [1] [PyFloat 0x3FE0000000000000] (DeviceStr ''cpu''))) (None, PyNone) =
     (Inr (TorchTensor (Tensor [1] [PyFloat 0x3FE0000000000000] (DeviceStr ''cpu'')),
           PyNumber (PyFloat 0x3FF0000000000000), PyNumber (PyBool False), PyNumber (PyBool True),
           PyMapping dict_class []),
      (None, PyNone))
   \<and> is_plain_float (PyNumber (PyFloat 0x3FF0000000000000))
   \<and> is_plain_bool (PyNumber (PyBool False)) \<and> is_plain_bool (PyNumber (PyBool True))"
proof -
  have returns:
    "step float_of_scalar Since_0_6_0 \<lparr>env = recording_env, device = None\<rparr>
        (TorchTensor (Tensor [1] [PyFloat 0x3FE0000000000000] (DeviceStr ''cpu''))) (None, PyNone) =
       (Inr (TorchTensor (Tensor [1] [PyFloat 0x3FE0000000000000] (DeviceStr ''cpu'')),
             PyNumber (PyFloat 0x3FF0000000000000), PyNumber (PyBool False), PyNumber (PyBool True),
             PyMapping dict_class []),
        (None, PyNone))"
    by (simp add: step_def recording_env_def jax_to_torch_JaxArray devicearray_jax_to_torch_def
          jax_to_torch_Mapping dict_of_pairs_def dict_class_def)
  from step_scalar_coercion [OF returns] returns show ?thesis by simp
qed

section \<open>Jax arrays are tensor leaves (C5)\<close>

text \<open>
  C5: for every Jax array, under either dispatch behaviour, \<^verbatim>\<open>jax_to_torch\<close> returns what
  \<^verbatim>\<open>_devicearray_jax_to_torch\<close> returns: a torch tensor obtained through dlpack, with the
  dimensions and elements of the array. It is never the result of the generic-iterable
  rule. (When dispatch reaches \<^verbatim>\<open>_jax_iterable_to_torch\<close>, the tensor handler is called
  without the device.)
\<close>

theorem jax_array_is_tensor_leaf:
  "jax_to_torch rel (JaxArray t) dev =
     devicearray_jax_to_torch (JaxArray t)
       (case rel of Before_0_6_0 \<Rightarrow> dev | Since_0_6_0 \<Rightarrow> None)
   \<and> (\<exists>t'. jax_to_torch rel (JaxArray t) dev = Inr (TorchTensor t')
          \<and> shape t' = shape t \<and> elems t' = elems t)
   \<and> jax_to_torch rel (JaxArray t) dev \<noteq> jax_iterable_rebuild rel (JaxArray t) dev"
  by (cases rel; cases dev)
     (auto simp: jax_to_torch_JaxArray devicearray_jax_to_torch_def jax_iterable_rebuild_def)

theorem jax_array_is_tensor_leaf_witness:
  "jax_to_torch Since_0_6_0 (JaxArray (Tensor [1] [PyInt 7] (DeviceStr ''cpu''))) (Some (DeviceStr ''cuda'')) =
     devicearray_jax_to_torch (JaxArray (Tensor [1] [PyInt 7] (DeviceStr ''cpu'')))
       (case Since_0_6_0 of Before_0_6_0 \<Rightarrow> Some (DeviceStr ''cuda'') | Since_0_6_0 \<Rightarrow> None)
   \<and> (\<exists>t'. jax_to_torch Since_0_6_0 (JaxArray (Tensor [1] [PyInt 7] (DeviceStr ''cpu'')))
               (Some (DeviceStr ''cuda'')) = Inr (TorchTensor t')
          \<and> shape t' = shape (Tensor [1] [PyInt 7] (DeviceStr ''cpu''))
          \<and> elems t' = elems (Tensor [1] [PyInt 7] (DeviceStr ''cpu'')))
   \<and> jax_to_torch Since_0_6_0 (JaxArray (Tensor [1] [PyInt 7] (DeviceStr ''cpu'')))
         (Some (DeviceStr ''cuda''))
       \<noteq> jax_iterable_rebuild Since_0_6_0 (JaxArray (Tensor [1] [PyInt 7] (DeviceStr ''cpu'')))
           (Some (DeviceStr ''cuda''))"
  by (rule jax_array_is_tensor_leaf)

section \<open>Values of no recognized shape (C6)\<close>

text \<open>
  C6: for every value whose runtime class matches none of the six recognized shapes, each
  converter raises (it does not return), and the message of the exception contains the
  class of the value as \<^verbatim>\<open>type(value)\<close> prints it.
\<close>

theorem unrecognized_shape_raises:
  assumes "\<not> recognized_shape v"
  shows "torch_to_jax rel v =
           Inl (Exception (''No known conversion for Torch type ('' @ type_repr v
                  @ '') to Jax registered. Report as issue on github.''))
       \<and> jax_to_torch rel v dev =
           Inl (Exception (''No known conversion for Jax type ('' @ type_repr v
                  @ '') to PyTorch registered. Report as issue on github.''))"
  using assms by (cases v) simp_all

theorem unrecognized_shape_raises_witness:
  "\<not> recognized_shape (PyObject ''socket.socket'')
   \<and> torch_to_jax Since_0_6_0 (PyObject ''socket.socket'') =
       Inl (Exception ''No known conversion for Torch type (<class 'socket.socket'>) to Jax registered. Report as issue on github.'')
   \<and> jax_to_torch Since_0_6_0 (PyObject ''socket.socket'') None =
       Inl (Exception ''No known conversion for Jax type (<class 'socket.socket'>) to PyTorch registered. Report as issue on github.'')"
  using unrecognized_shape_raises [of "PyObject ''socket.socket''" Since_0_6_0 None]
  by (simp add: type_repr_def)

section \<open>Mappings (C7)\<close>



section \<open>\<^verbatim>\<open>reset\<close> (C8)\<close>

text \<open>
  C8: for every call of \<^verbatim>\<open>reset\<close> with \<^verbatim>\<open>options\<close> of its declared type (\<^verbatim>\<open>None\<close> or a
  \<^verbatim>\<open>dict\<close>): \<^verbatim>\<open>options\<close>, if present, reaches the wrapped environment converted by
  \<^verbatim>\<open>torch_to_jax\<close>, the seed reaches it unchanged, and what the environment returns is
  returned converted by \<^verbatim>\<open>jax_to_torch\<close> with the wrapper's device; an (observation, info)
  pair comes back as the pair of the two conversions. (The code tests the truth of
  \<^verbatim>\<open>options\<close>, not its presence: an empty mapping is passed on as it is, which is also
  what its conversion returns.)
\<close>

theorem reset_converts:
  assumes "is_options options"
  shows "reset rel self seed options s = reset_spec rel self seed options s
       \<and> jax_to_torch rel (PySequence TupleType [obs, info]) dev =
           bind (jax_to_torch rel obs dev) (\<lambda>obs'.
           bind (jax_to_torch rel info dev) (\<lambda>info'.
             Inr (PySequence TupleType [obs', info'])))"
proof
  show "reset rel self seed options s = reset_spec rel self seed options s"
  proof (cases options)
    case PyNone
    then show ?thesis by (simp add: reset_def reset_spec_def)
  next
    case (PyMapping c kvs)
    with assms have "kwargs_call c = BuildsFromKwargs" by simp
    with PyMapping show ?thesis
      by (cases kvs) (simp_all add: reset_def reset_spec_def torch_to_jax_empty_mapping)
  qed (use assms in simp_all)
  show "jax_to_torch rel (PySequence TupleType [obs, info]) dev =
           bind (jax_to_torch rel obs dev) (\<lambda>obs'.
           bind (jax_to_torch rel info dev) (\<lambda>info'.
             Inr (PySequence TupleType [obs', info'])))"
    by (cases "jax_to_torch rel obs dev"; cases "jax_to_torch rel info dev")
       (simp_all add: jax_to_torch_Sequence)
qed

theorem reset_converts_witness:
  "is_options (PyMapping dict_class [(KStr ''goal'', TorchTensor (Tensor [1] [PyInt 7] (DeviceStr ''cpu'')))])
   \<and> reset Since_0_6_0 \<lparr>env = recording_env, device = None\<rparr> (Some 123)
        (PyMapping dict_class [(KStr ''goal'', TorchTensor (Tensor [1] [PyInt 7] (DeviceStr ''cpu'')))])
        (None, PyNone) =
      (Inr (PySequence TupleType
              [PyMapping dict_class
                 [(KStr ''pos'',
                   TorchTensor (Tensor [2] [PyFloat 0x3FF0000000000000, PyFloat 0x4000000000000000]
                                  (DeviceStr ''cpu'')))],
               PyMapping dict_class []]),
       (Some 123, PyMapping dict_class [(KStr ''goal'', JaxArray (Tensor [1] [PyInt 7] (DeviceStr ''cpu'')))]))"
  using reset_converts
    [where options = "PyMapping dict_class [(KStr ''goal'', TorchTensor (Tensor [1] [PyInt 7] (DeviceStr ''cpu'')))]"
       and rel = Since_0_6_0 and self = "\<lparr>env = recording_env, device = None\<rparr>"
       and seed = "Some 123" and s = "(None, PyNone)"]
  by (simp add: reset_spec_def recording_env_def torch_to_jax_Mapping jax_to_torch_Mapping
        jax_to_torch_Sequence jax_to_torch_JaxArray devicearray_jax_to_torch_def
        dict_of_pairs_def dict_class_def)

section \<open>Namedtuples (C9)\<close>

text \<open>
  C9: for every namedtuple, each converter returns a namedtuple of the same class whose
  fields are the conversions of the fields, in the same order, rebuilt through \<^verbatim>\<open>_make\<close>;
  it does so exactly when every field converts (an exception raised for a field is the
  exception of the whole conversion).
\<close>

theorem record_preserved:
  "(torch_to_jax rel (PyNamedTuple T fs) = Inr r \<longleftrightarrow>
      (\<exists>fs'. r = PyNamedTuple T fs' \<and> list_all2 (\<lambda>x y. torch_to_jax rel x = Inr y) fs fs'))
   \<and> (jax_to_torch rel (PyNamedTuple T fs) dev = Inr r' \<longleftrightarrow>
      (\<exists>fs'. r' = PyNamedTuple T fs' \<and> list_all2 (\<lambda>x y. jax_to_torch rel x dev = Inr y) fs fs'))"
  unfolding torch_to_jax_NamedTuple jax_to_torch_NamedTuple
  by (rule conjI; rule namedtuple_rebuild_iff)

theorem record_preserved_witness:
  "torch_to_jax Since_0_6_0
     (PyNamedTuple ''Transition''
        [TorchTensor (Tensor [1] [PyInt 7] (DeviceStr ''cpu'')), PyNumber (PyInt 2), PyNone]) =
     Inr (PyNamedTuple ''Transition''
        [JaxArray (Tensor [1] [PyInt 7] (DeviceStr ''cpu'')),
         JaxArray (Tensor [] [PyInt 2] default_device), PyNone])
   \<and> jax_to_torch Since_0_6_0
     (PyNamedTuple ''Transition''
        [JaxArray (Tensor [1] [PyInt 7] (DeviceStr ''cpu'')), PyStr ''a'', PyNone]) None =
     Inr (PyNamedTuple ''Transition''
        [TorchTensor (Tensor [1] [PyInt 7] (DeviceStr ''cpu'')),
         PyStr (generator_repr ''_jax_iterable_to_torch''), PyNone])"
  using record_preserved
    [where rel = Since_0_6_0 and T = "''Transition''"
       and fs = "[TorchTensor (Tensor [1] [PyInt 7] (DeviceStr ''cpu'')), PyNumber (PyInt 2),
                  PyNone]"
       and r = "PyNamedTuple ''Transition''
           [JaxArray (Tensor [1] [PyInt 7] (DeviceStr ''cpu'')),
            JaxArray (Tensor [] [PyInt 2] default_device), PyNone]"]
    record_preserved
    [where rel = Since_0_6_0 and T = "''Transition''" and dev = None
       and fs = "[JaxArray (Tensor [1] [PyInt 7] (DeviceStr ''cpu'')), PyStr ''a'', PyNone]"
       and r' = "PyNamedTuple ''Transition''
           [TorchTensor (Tensor [1] [PyInt 7] (DeviceStr ''cpu'')),
            PyStr (generator_repr ''_jax_iterable_to_torch''), PyNone]"]
  by (simp add: jax_to_torch_JaxArray devicearray_jax_to_torch_def)

section \<open>Round trip of a tensor leaf (C10)\<close>

text \<open>
  C10: for every Jax array \<open>t\<close>, \<^verbatim>\<open>torch_to_jax(jax_to_torch(t, device))\<close> returns a Jax
  array with the dimensions and the elements of \<open>t\<close>; only its placement may differ
  (when a device was given and applied). Both converters reach their tensor handlers; what
  dlpack and \<^verbatim>\<open>tensor.to\<close> do to the buffer is as the spec describes it.
\<close>

theorem tensor_round_trip:
  "\<exists>t'. bind (jax_to_torch rel (JaxArray t) dev) (torch_to_jax rel) = Inr (JaxArray t')
        \<and> shape t' = shape t \<and> elems t' = elems t"
  by (cases rel; cases dev)
     (auto simp: jax_to_torch_JaxArray devicearray_jax_to_torch_def)

theorem tensor_round_trip_witness:
  "\<exists>t'. bind (jax_to_torch Before_0_6_0
                 (JaxArray (Tensor [2] [PyFloat 0x3FF0000000000000, PyFloat 0x4000000000000000]
                    (DeviceStr ''cpu'')))
                 (Some (DeviceStr ''cuda'')))
              (torch_to_jax Before_0_6_0) = Inr (JaxArray t')
        \<and> shape t' = shape (Tensor [2] [PyFloat 0x3FF0000000000000, PyFloat 0x4000000000000000]
                             (DeviceStr ''cpu''))
        \<and> elems t' = elems (Tensor [2] [PyFloat 0x3FF0000000000000, PyFloat 0x4000000000000000]
                             (DeviceStr ''cpu''))"
  by (rule tensor_round_trip)

end
